theory Spec2Isabelle
  imports Main "HOL-Library.Word" "HOL-Library.Signed_Division"
begin

unbundle bit_operations_syntax

section \<open>Data model\<close>

text \<open>
  The sketch \<^verbatim>\<open>src/main.cpp\<close> drives one white channel (\<^verbatim>\<open>led_strip_w\<close>, class
  \<^verbatim>\<open>LedStrip\<close>) and one RGB group (\<^verbatim>\<open>led_strip_rgb\<close>, class \<^verbatim>\<open>LedStripRGB\<close>).
  Both classes, the enums and the colour constants are declared in \<^verbatim>\<open>LedStrip.h\<close>
  and \<^verbatim>\<open>LedStripRGB.h\<close>, which are not part of the sources at hand; they are modelled
  from the specification (sections 3, 4.2 and 4.4).  Everything else below is translated
  from \<^verbatim>\<open>main.cpp\<close>.
\<close>

text \<open>Modelled from the spec: the enums \<^verbatim>\<open>LedStripState\<close> and \<^verbatim>\<open>LedStripRgbMode\<close> and the
  struct \<^verbatim>\<open>RGBColor\<close> of the absent headers.  \<^verbatim>\<open>main.cpp\<close> names their values and
  fields (\<^verbatim>\<open>LedStripState::ON\<close>, \<^verbatim>\<open>LedStripRgbMode::FADE\<close>, \<^verbatim>\<open>c.red\<close>), and its comment
  on \<^verbatim>\<open>btnModeShortPressed\<close> gives the order of the modes.\<close>

datatype LedStripState = OFF | ON

datatype LedStripRgbMode = NORMAL | STROBE | FLASH | FADE

record RGBColor =
  red :: "8 word"
  green :: "8 word"
  blue :: "8 word"

text \<open>Modelled from the spec: channel state \<open>{isOn: bool, intensity: uint8}\<close> of the absent
  class \<^verbatim>\<open>LedStrip\<close>.\<close>

record LedStrip =
  isOn :: bool
  intensity :: "8 word"

text \<open>Modelled from the spec: the state \<open>{isOn, mode, color, speed}\<close> of the absent class
  \<^verbatim>\<open>LedStripRGB\<close>.  The animation phase of the spec is private to the absent
  \<^verbatim>\<open>LedStripRGB::loop\<close>; no function of \<^verbatim>\<open>main.cpp\<close> reads it and it is left out.\<close>

record LedStripRGB =
  rgbOn :: bool
  mode :: LedStripRgbMode
  color :: RGBColor
  speed :: "16 word"

subsection \<open>The white channel (\<^verbatim>\<open>LedStrip\<close>)\<close>

text \<open>Modelled from the spec: \<^verbatim>\<open>LedStrip::turnOn\<close> only flips \<open>isOn\<close>; the intensity is
  preserved.\<close>

definition LedStrip_turnOn :: "LedStrip \<Rightarrow> LedStrip" where
  "LedStrip_turnOn w = w\<lparr>isOn := True\<rparr>"

text \<open>Modelled from the spec: \<^verbatim>\<open>LedStrip::turnOff\<close> only flips \<open>isOn\<close>.\<close>

definition LedStrip_turnOff :: "LedStrip \<Rightarrow> LedStrip" where
  "LedStrip_turnOff w = w\<lparr>isOn := False\<rparr>"

text \<open>Modelled from the spec: \<^verbatim>\<open>LedStrip::setIntensity\<close>; inputs are clamped to
  \<open>[0,255]\<close> and \<open>isOn\<close> is not touched.  The argument is as wide as the widest
  unsigned value \<^verbatim>\<open>main.cpp\<close> passes (\<^verbatim>\<open>uint32_t\<close>).\<close>

definition LedStrip_setIntensity :: "32 word \<Rightarrow> LedStrip \<Rightarrow> LedStrip" where
  "LedStrip_setIntensity v w = w\<lparr>intensity := (if 255 < v then 255 else ucast v)\<rparr>"

text \<open>Modelled from the spec: \<^verbatim>\<open>LedStrip::getState\<close>.\<close>

definition LedStrip_getState :: "LedStrip \<Rightarrow> LedStripState" where
  "LedStrip_getState w = (if isOn w then ON else OFF)"

text \<open>Modelled from the spec: \<^verbatim>\<open>LedStrip::getIntensity\<close>, the stored intensity.\<close>

definition LedStrip_getIntensity :: "LedStrip \<Rightarrow> 8 word" where
  "LedStrip_getIntensity w = intensity w"

subsection \<open>The RGB group (\<^verbatim>\<open>LedStripRGB\<close>)\<close>

text \<open>A colour is packed into and unpacked from a 24-bit integer \<open>0xRRGGBB\<close>, the
  layout in which \<^verbatim>\<open>main.cpp\<close> itself builds colours (\<^verbatim>\<open>color_mixer\<close>,
  \<^verbatim>\<open>BLYNK_WRITE(V0)\<close>) and which the spec gives for \<^verbatim>\<open>RGBColor\<close>.\<close>

definition packColor :: "RGBColor \<Rightarrow> 32 word" where
  "packColor c = push_bit 16 (ucast (red c)) OR push_bit 8 (ucast (green c)) OR ucast (blue c)"

definition unpackColor :: "32 word \<Rightarrow> RGBColor" where
  "unpackColor v = \<lparr>red = ucast (drop_bit 16 v), green = ucast (drop_bit 8 v), blue = ucast v\<rparr>"

text \<open>Modelled from the spec: the constant \<^verbatim>\<open>COLOR_WHITE\<close> of the absent header, pure
  white in the \<open>0xRRGGBB\<close> packing.\<close>

definition COLOR_WHITE :: "32 word" where
  "COLOR_WHITE = 0xFFFFFF"

text \<open>Modelled from the spec: \<^verbatim>\<open>LedStripRGB::turnOn\<close> and \<^verbatim>\<open>turnOff\<close> flip \<open>isOn\<close>
  only.\<close>

definition LedStripRGB_turnOn :: "LedStripRGB \<Rightarrow> LedStripRGB" where
  "LedStripRGB_turnOn g = g\<lparr>rgbOn := True\<rparr>"

definition LedStripRGB_turnOff :: "LedStripRGB \<Rightarrow> LedStripRGB" where
  "LedStripRGB_turnOff g = g\<lparr>rgbOn := False\<rparr>"

text \<open>Modelled from the spec: \<^verbatim>\<open>LedStripRGB::getState\<close>.\<close>

definition LedStripRGB_getState :: "LedStripRGB \<Rightarrow> LedStripState" where
  "LedStripRGB_getState g = (if rgbOn g then ON else OFF)"

text \<open>Modelled from the spec: \<^verbatim>\<open>LedStripRGB::setColor\<close>; an out-of-range value is
  clamped to 24 bits, and the colour is stored whatever the on/off state.\<close>

definition LedStripRGB_setColor :: "32 word \<Rightarrow> LedStripRGB \<Rightarrow> LedStripRGB" where
  "LedStripRGB_setColor v g = g\<lparr>color := unpackColor (if 0xFFFFFF < v then 0xFFFFFF else v)\<rparr>"

text \<open>Modelled from the spec: \<^verbatim>\<open>LedStripRGB::getColor\<close>, the stored colour as a 24-bit
  integer.\<close>

definition LedStripRGB_getColor :: "LedStripRGB \<Rightarrow> 32 word" where
  "LedStripRGB_getColor g = packColor (color g)"

text \<open>Modelled from the spec: \<^verbatim>\<open>LedStripRGB::setMode\<close> and \<^verbatim>\<open>getMode\<close>.\<close>

definition LedStripRGB_setMode :: "LedStripRgbMode \<Rightarrow> LedStripRGB \<Rightarrow> LedStripRGB" where
  "LedStripRGB_setMode m g = g\<lparr>mode := m\<rparr>"

definition LedStripRGB_getMode :: "LedStripRGB \<Rightarrow> LedStripRgbMode" where
  "LedStripRGB_getMode g = mode g"

text \<open>Modelled from the spec: \<^verbatim>\<open>LedStripRGB::nextMode\<close> advances
  Normal, Strobe, Flash, Fade, Normal, cyclically.\<close>

fun succMode :: "LedStripRgbMode \<Rightarrow> LedStripRgbMode" where
  "succMode NORMAL = STROBE"
| "succMode STROBE = FLASH"
| "succMode FLASH = FADE"
| "succMode FADE = NORMAL"

definition LedStripRGB_nextMode :: "LedStripRGB \<Rightarrow> LedStripRGB" where
  "LedStripRGB_nextMode g = g\<lparr>mode := succMode (mode g)\<rparr>"

text \<open>Modelled from the spec: \<^verbatim>\<open>LedStripRGB::setSpeed(v: uint16)\<close> stores the speed.\<close>

definition LedStripRGB_setSpeed :: "16 word \<Rightarrow> LedStripRGB \<Rightarrow> LedStripRGB" where
  "LedStripRGB_setSpeed v g = g\<lparr>speed := v\<rparr>"

section \<open>The globals of \<^verbatim>\<open>main.cpp\<close>\<close>

text \<open>
  \<^verbatim>\<open>led_strip_w\<close>, \<^verbatim>\<open>led_strip_rgb\<close>, \<^verbatim>\<open>last_color\<close> (\<^verbatim>\<open>uint32_t\<close>) and
  \<^verbatim>\<open>last_pot_color_value\<close> (\<^verbatim>\<open>uint16_t\<close>) are the mutable globals the handlers work
  on.  Every handler takes the state and returns the updated one.  \<^verbatim>\<open>updateWidgets()\<close>,
  called at the end of each handler, only publishes the state (Blynk widgets and the MQTT
  status message) and changes none of these globals.
\<close>

record driver =
  led_strip_w :: LedStrip
  led_strip_rgb :: LedStripRGB
  last_color :: "32 word"
  last_pot_color_value :: "16 word"

section \<open>Button handlers\<close>

text \<open>\<^verbatim>\<open>btnModeShortPressed\<close>, lines 503-537: an ordered chain of five branches.\<close>

definition btnModeShortPressed :: "driver \<Rightarrow> driver" where
  "btnModeShortPressed s =
    (if LedStrip_getState (led_strip_w s) = OFF \<and> LedStripRGB_getState (led_strip_rgb s) = OFF
     then s\<lparr>led_strip_w := LedStrip_turnOn (led_strip_w s)\<rparr>
     else if LedStrip_getState (led_strip_w s) = ON \<and> LedStripRGB_getState (led_strip_rgb s) = OFF
     then s\<lparr>led_strip_w := LedStrip_setIntensity 255 (led_strip_w s),
            last_color := LedStripRGB_getColor (led_strip_rgb s),
            led_strip_rgb :=
              LedStripRGB_turnOn (LedStripRGB_setMode NORMAL
                (LedStripRGB_setColor COLOR_WHITE (led_strip_rgb s)))\<rparr>
     else if LedStripRGB_getMode (led_strip_rgb s) = NORMAL \<and>
             LedStripRGB_getColor (led_strip_rgb s) = COLOR_WHITE
     then s\<lparr>led_strip_w := LedStrip_turnOff (led_strip_w s),
            led_strip_rgb :=
              LedStripRGB_turnOn (LedStripRGB_setColor (last_color s) (led_strip_rgb s))\<rparr>
     else if LedStripRGB_getMode (led_strip_rgb s) = FADE
     then s\<lparr>led_strip_w := LedStrip_turnOn (led_strip_w s),
            led_strip_rgb := LedStripRGB_turnOff (LedStripRGB_nextMode (led_strip_rgb s))\<rparr>
     else s\<lparr>led_strip_rgb := LedStripRGB_nextMode (led_strip_rgb s)\<rparr>)"

text \<open>\<^verbatim>\<open>btnModeLongPressed\<close>, lines 551-556.\<close>

definition btnModeLongPressed :: "driver \<Rightarrow> driver" where
  "btnModeLongPressed s =
    s\<lparr>led_strip_w := LedStrip_turnOff (led_strip_w s),
      led_strip_rgb := LedStripRGB_turnOff (led_strip_rgb s)\<rparr>"

section \<open>The colour wheel\<close>

text \<open>
  \<^verbatim>\<open>color_mixer\<close>, lines 562-593.  \<^verbatim>\<open>input_value\<close> is a \<^verbatim>\<open>uint16_t\<close>; in
  \<^verbatim>\<open>(input_value * 3) / 4\<close> and \<^verbatim>\<open>(input_value - 683) * 3 / 4\<close> it is promoted to the
  32-bit \<^verbatim>\<open>int\<close> of the ESP8266, the division truncates towards zero (\<open>sdiv\<close>), and the
  result is converted back to \<^verbatim>\<open>uint16_t\<close> (\<open>word_of_int\<close>).  The locals \<^verbatim>\<open>red\<close>,
  \<^verbatim>\<open>green\<close>, \<^verbatim>\<open>blue\<close> are \<^verbatim>\<open>int32_t\<close>; they are modelled as \<open>int\<close>, which is exact
  here because no intermediate value leaves the range of 32 bits (the largest magnitude is
  \<open>65535 * 3\<close> before the masks and \<open>0xFF0000\<close> after).  The bitwise and of a negative
  \<open>int\<close> is the two's-complement one, as in C++.  The sum is returned as \<^verbatim>\<open>uint32_t\<close>.
\<close>

definition color_mixer :: "16 word \<Rightarrow> 32 word" where
  "color_mixer input_value =
    (let (red, green, blue) =
      (if input_value < 341 then
         let input_value' = (word_of_int ((uint input_value * 3) sdiv 4) :: 16 word)
         in (256 - uint input_value', uint input_value', 1)
       else if input_value < 682 then
         let input_value' = (word_of_int (((uint input_value - 341) * 3) sdiv 4) :: 16 word)
         in (1, 256 - uint input_value', uint input_value')
       else
         let input_value' = (word_of_int (((uint input_value - 683) * 3) sdiv 4) :: 16 word)
         in (uint input_value', 1, 256 - uint input_value'));
      red = push_bit 16 (red AND 0xFF);
      green = push_bit 8 (green AND 0xFF);
      blue = blue AND 0xFF
     in word_of_int (red + green + blue))"

section \<open>The potentiometer\<close>

definition THRESHOLD_FOR_TURN_ON :: int where
  "THRESHOLD_FOR_TURN_ON = 100"

text \<open>The condition of the inner \<^verbatim>\<open>if\<close> of \<^verbatim>\<open>readPotValue\<close>, line 636:
  \<^verbatim>\<open>abs((new_pot_value / 4) - last_pot_color_value) > THRESHOLD_FOR_TURN_ON\<close>, computed in
  \<^verbatim>\<open>int\<close> after promotion of both \<^verbatim>\<open>uint16_t\<close> operands.\<close>

definition turn_on_jump :: "16 word \<Rightarrow> 16 word \<Rightarrow> bool" where
  "turn_on_jump new_pot_value last_value =
    (\<bar>uint (new_pot_value div 4) - uint last_value\<bar> > THRESHOLD_FOR_TURN_ON)"

text \<open>\<^verbatim>\<open>readPotValue\<close>, lines 604-644.  The value read by \<^verbatim>\<open>analogRead(POT_COLOR_PIN)\<close>
  and stored in the \<^verbatim>\<open>uint16_t new_pot_value\<close> is the first argument.  The quotient
  \<^verbatim>\<open>new_pot_value / 4\<close> of a non-negative promoted value is the unsigned quotient.\<close>

definition readPotValue :: "16 word \<Rightarrow> driver \<Rightarrow> driver" where
  "readPotValue new_pot_value s =
    (if new_pot_value div 4 \<noteq> last_pot_color_value s then
       let s = s\<lparr>last_pot_color_value := new_pot_value div 4\<rparr> in
       if LedStripRGB_getState (led_strip_rgb s) = ON then
         (case LedStripRGB_getMode (led_strip_rgb s) of
            NORMAL \<Rightarrow>
              s\<lparr>led_strip_rgb := LedStripRGB_setColor (color_mixer new_pot_value) (led_strip_rgb s)\<rparr>
          | STROBE \<Rightarrow>
              s\<lparr>led_strip_rgb := LedStripRGB_setColor (color_mixer new_pot_value) (led_strip_rgb s)\<rparr>
          | FLASH \<Rightarrow>
              s\<lparr>led_strip_rgb := LedStripRGB_setSpeed new_pot_value (led_strip_rgb s)\<rparr>
          | FADE \<Rightarrow>
              s\<lparr>led_strip_rgb := LedStripRGB_setSpeed new_pot_value (led_strip_rgb s)\<rparr>)
       else if LedStrip_getState (led_strip_w s) = ON then
         s\<lparr>led_strip_w := LedStrip_setIntensity (ucast (last_pot_color_value s)) (led_strip_w s)\<rparr>
       else
         let s = s\<lparr>led_strip_w := LedStrip_turnOn
                   (LedStrip_setIntensity (ucast (last_pot_color_value s)) (led_strip_w s))\<rparr>
         in if turn_on_jump new_pot_value (last_pot_color_value s) then
              s\<lparr>led_strip_w := LedStrip_turnOn
                  (LedStrip_setIntensity (ucast (last_pot_color_value s)) (led_strip_w s))\<rparr>
            else s
     else s)"

section \<open>Remote commands\<close>

subsection \<open>The Arduino \<^verbatim>\<open>String\<close> operations used by the handlers\<close>

text \<open>
  \<^verbatim>\<open>String\<close> belongs to the Arduino core, not to this repository.  The handlers use
  construction from a C string (the characters before the first NUL), \<^verbatim>\<open>trim\<close>
  (strips \<^verbatim>\<open>isspace\<close> characters at both ends), \<^verbatim>\<open>toLowerCase\<close>, \<^verbatim>\<open>startsWith\<close>,
  \<^verbatim>\<open>endsWith\<close>, \<^verbatim>\<open>toInt\<close> (the C library's \<^verbatim>\<open>atol\<close>: leading white space, an optional
  sign, then decimal digits; a value out of the range of \<^verbatim>\<open>long\<close> saturates) and the
  conversion \<^verbatim>\<open>String(value, HEX)\<close> of an \<^verbatim>\<open>unsigned char\<close> (\<^verbatim>\<open>utoa\<close> in base 16:
  lower-case digits, no leading zero).
\<close>

definition isspace :: "char \<Rightarrow> bool" where
  "isspace c = (c \<in> set [CHR '' '', CHR 0x09, CHR 0x0A, CHR 0x0B, CHR 0x0C, CHR 0x0D])"

definition tolower :: "char \<Rightarrow> char" where
  "tolower c =
    (let n = (of_char c :: nat) in if 65 \<le> n \<and> n \<le> 90 then char_of (n + 32) else c)"

definition isdigit :: "char \<Rightarrow> bool" where
  "isdigit c = (let n = (of_char c :: nat) in 48 \<le> n \<and> n \<le> 57)"

definition String_cstr :: "string \<Rightarrow> string" where
  "String_cstr bytes = takeWhile (\<lambda>c. c \<noteq> CHR 0x00) bytes"

definition String_trim :: "string \<Rightarrow> string" where
  "String_trim s = rev (dropWhile isspace (rev (dropWhile isspace s)))"

definition String_toLowerCase :: "string \<Rightarrow> string" where
  "String_toLowerCase s = map tolower s"

definition String_startsWith :: "string \<Rightarrow> string \<Rightarrow> bool" where
  "String_startsWith s p = (length p \<le> length s \<and> take (length p) s = p)"

definition String_endsWith :: "string \<Rightarrow> string \<Rightarrow> bool" where
  "String_endsWith s p = (length p \<le> length s \<and> drop (length s - length p) s = p)"

fun atol_digits :: "string \<Rightarrow> int \<Rightarrow> int" where
  "atol_digits [] acc = acc"
| "atol_digits (c # cs) acc =
     (if isdigit c then atol_digits cs (acc * 10 + (int (of_char c) - 48)) else acc)"

definition String_toInt :: "string \<Rightarrow> int" where
  "String_toInt s =
    (let t = dropWhile isspace s;
         v = (case t of
                [] \<Rightarrow> 0
              | c # cs \<Rightarrow>
                  if c = CHR ''-'' then - atol_digits cs 0
                  else if c = CHR ''+'' then atol_digits cs 0
                  else atol_digits t 0)
     in max (- (2 ^ 31)) (min (2 ^ 31 - 1) v))"

definition hex_digit :: "nat \<Rightarrow> char" where
  "hex_digit d = ''0123456789abcdef'' ! d"

definition String_HEX :: "8 word \<Rightarrow> string" where
  "String_HEX v =
    (if unat v < 16 then [hex_digit (unat v)]
     else [hex_digit (unat v div 16), hex_digit (unat v mod 16)])"

subsection \<open>MQTT and Blynk handlers\<close>

text \<open>
  \<^verbatim>\<open>mqttCallback\<close>, lines 330-393.  The payload is copied into \<^verbatim>\<open>caPayload\<close>, an array
  of exactly \<^verbatim>\<open>length\<close> characters with no terminator, and \<^verbatim>\<open>String(caPayload)\<close> reads
  up to the first NUL; the model takes the byte after the array to be NUL, the one case in
  which the read stays defined.  \<^verbatim>\<open>toInt\<close> returns a \<^verbatim>\<open>long\<close> that is converted to
  \<^verbatim>\<open>uint32_t\<close> (\<open>word_of_int\<close>).  In the branch of \<^verbatim>\<open>/rgb/mode\<close> the call
  \<^verbatim>\<open>led_strip_rgb.turnOn()\<close> (line 386) stands after the chain on the payload, outside
  every branch of it.
\<close>

definition mqttCallback :: "string \<Rightarrow> string \<Rightarrow> driver \<Rightarrow> driver" where
  "mqttCallback topic payload s =
    (let strTopic = String_cstr topic;
         strPayload = String_toLowerCase (String_trim (String_cstr payload))
     in
       if String_endsWith strTopic ''/white'' then
         (if String_startsWith strPayload ''on'' then
            s\<lparr>led_strip_w := LedStrip_turnOn (led_strip_w s)\<rparr>
          else if String_startsWith strPayload ''off'' then
            s\<lparr>led_strip_w := LedStrip_turnOff (led_strip_w s)\<rparr>
          else s)
       else if String_endsWith strTopic ''/white/intensity'' then
         s\<lparr>led_strip_w :=
             LedStrip_setIntensity (word_of_int (String_toInt strPayload)) (led_strip_w s)\<rparr>
       else if String_endsWith strTopic ''/rgb'' then
         (if String_startsWith strPayload ''on'' then
            s\<lparr>led_strip_rgb := LedStripRGB_turnOn (led_strip_rgb s)\<rparr>
          else if String_startsWith strPayload ''off'' then
            s\<lparr>led_strip_rgb := LedStripRGB_turnOff (led_strip_rgb s)\<rparr>
          else s)
       else if String_endsWith strTopic ''/rgb/mode'' then
         (let s =
            (if String_startsWith strPayload ''normal'' then
               s\<lparr>led_strip_rgb := LedStripRGB_setMode NORMAL (led_strip_rgb s)\<rparr>
             else if String_startsWith strPayload ''strobe'' then
               s\<lparr>led_strip_rgb := LedStripRGB_setMode STROBE (led_strip_rgb s)\<rparr>
             else if String_startsWith strPayload ''flash'' then
               s\<lparr>led_strip_rgb := LedStripRGB_setMode FLASH (led_strip_rgb s)\<rparr>
             else if String_startsWith strPayload ''fade'' then
               s\<lparr>led_strip_rgb := LedStripRGB_setMode FADE (led_strip_rgb s)\<rparr>
             else s)
          in s\<lparr>led_strip_rgb := LedStripRGB_turnOn (led_strip_rgb s)\<rparr>)
       else if String_endsWith strTopic ''/rgb/color'' then
         s\<lparr>led_strip_rgb :=
             LedStripRGB_setColor (word_of_int (String_toInt strPayload)) (led_strip_rgb s)\<rparr>
       else s)"

text \<open>\<^verbatim>\<open>BLYNK_WRITE(V2)\<close>, lines 453-480: the same mode selection from the Blynk menu.  Here
  \<^verbatim>\<open>turnOn()\<close> stands inside each of the four cases, and a value that selects no mode
  does nothing.  The argument is \<^verbatim>\<open>param[0].asInt()\<close>.\<close>

definition BLYNK_WRITE_V2 :: "int \<Rightarrow> driver \<Rightarrow> driver" where
  "BLYNK_WRITE_V2 param s =
    (if param = 1 then
       s\<lparr>led_strip_rgb := LedStripRGB_turnOn (LedStripRGB_setMode NORMAL (led_strip_rgb s))\<rparr>
     else if param = 2 then
       s\<lparr>led_strip_rgb := LedStripRGB_turnOn (LedStripRGB_setMode STROBE (led_strip_rgb s))\<rparr>
     else if param = 3 then
       s\<lparr>led_strip_rgb := LedStripRGB_turnOn (LedStripRGB_setMode FLASH (led_strip_rgb s))\<rparr>
     else if param = 4 then
       s\<lparr>led_strip_rgb := LedStripRGB_turnOn (LedStripRGB_setMode FADE (led_strip_rgb s))\<rparr>
     else s)"

section \<open>Telemetry\<close>

text \<open>
  \<^verbatim>\<open>getState\<close>, lines 222-267, builds the JSON object
  \<^verbatim>\<open>{"white": {"state", "intensity"}, "rgb": {"state", "mode", "color"}}\<close>; the record
  below holds its five values.  \<^verbatim>\<open>led_strip_rgb.getRGBColor()\<close> of the absent class
  returns the colour currently driven to the channels, which in the animated modes depends
  on the animation; \<open>getState\<close> takes the returned \<^verbatim>\<open>RGBColor\<close> as its second argument.
\<close>

record telemetry =
  white_state :: string
  white_intensity :: "8 word"
  rgb_state :: string
  rgb_mode :: string
  rgb_color :: string

definition getState :: "driver \<Rightarrow> RGBColor \<Rightarrow> telemetry" where
  "getState s c =
    \<lparr>white_state = (if LedStrip_getState (led_strip_w s) = ON then ''ON'' else ''OFF''),
     white_intensity =
       (if LedStrip_getState (led_strip_w s) = ON then LedStrip_getIntensity (led_strip_w s)
        else 0),
     rgb_state = (if LedStripRGB_getState (led_strip_rgb s) = ON then ''ON'' else ''OFF''),
     rgb_mode =
       (if LedStripRGB_getState (led_strip_rgb s) = ON then
          (case LedStripRGB_getMode (led_strip_rgb s) of
             NORMAL \<Rightarrow> ''NORMAL''
           | STROBE \<Rightarrow> ''STROBE''
           | FLASH \<Rightarrow> ''FLASH''
           | FADE \<Rightarrow> ''FADE'')
        else []),
     rgb_color = ''#'' @ String_HEX (red c) @ String_HEX (green c) @ String_HEX (blue c)\<rparr>"

section \<open>The control loop\<close>

text \<open>
  \<^verbatim>\<open>loop\<close>, lines 887-902, is a fixed sequence of calls; the model is the sequence
  itself.  \<^verbatim>\<open>mqttConnect()\<close> is called only while the MQTT client is not connected.  The
  first statement of the body, \<^verbatim>\<open>// readPotValue();\<close>, is commented out, so the sequence
  starts with \<^verbatim>\<open>serialLoop()\<close>.
\<close>

datatype call =
  SerialLoop | ReadPotValue | BtnModeLoop | LedStripRgbLoop | MqttConnect
  | MqttClientLoop | MqttSendTele | BlynkRun | Delay nat

definition loop :: "bool \<Rightarrow> call list" where
  "loop mqtt_connected =
    [SerialLoop, BtnModeLoop, LedStripRgbLoop] @
    (if mqtt_connected then [] else [MqttConnect]) @
    [MqttClientLoop, MqttSendTele, BlynkRun, Delay 50]"

section \<open>Properties\<close>

subsection \<open>Packing and unpacking colours\<close>

lemma white_is_mask24: "(0xFFFFFF :: 32 word) = mask 24"
  by (simp add: mask_eq_exp_minus_1)

lemma packColor_le: "packColor c \<le> 0xFFFFFF"
proof -
  have "packColor c AND mask 24 = packColor c"
    by (simp add: packColor_def bit_eq_iff bit_simps) (auto dest: bit_imp_le_length)
  then show ?thesis
    unfolding white_is_mask24 by (metis word_and_le1)
qed

lemma unpack_packColor: "unpackColor (packColor c) = c"
proof -
  have "ucast (drop_bit 16 (packColor c)) = red c"
    by (simp add: packColor_def bit_eq_iff bit_simps) (auto dest: bit_imp_le_length)
  moreover have "ucast (drop_bit 8 (packColor c)) = green c"
    by (simp add: packColor_def bit_eq_iff bit_simps) (auto dest: bit_imp_le_length)
  moreover have "ucast (packColor c) = blue c"
    by (simp add: packColor_def bit_eq_iff bit_simps)
  ultimately show ?thesis
    by (simp add: unpackColor_def)
qed

lemma pack_unpackColor:
  assumes "v \<le> 0xFFFFFF"
  shows "packColor (unpackColor v) = v"
proof -
  have "uint v < 2 ^ 24"
    using assms by (simp add: word_le_def)
  then have "v AND mask 24 = v"
    by (simp add: mask_eq_iff)
  then have hi: "n < 24" if "bit v n" for n
    using that by (metis bit_and_iff bit_mask_iff)
  show ?thesis
    apply (simp add: packColor_def unpackColor_def bit_eq_iff bit_simps)
    apply (auto dest: hi)
    subgoal for n by (cases "n < 16") auto
    done
qed

lemma getColor_setColor:
  "v \<le> 0xFFFFFF \<Longrightarrow> LedStripRGB_getColor (LedStripRGB_setColor v g) = v"
  by (simp add: LedStripRGB_getColor_def LedStripRGB_setColor_def pack_unpackColor not_less [symmetric])

lemma setColor_getColor:
  "LedStripRGB_setColor (LedStripRGB_getColor g) g = g"
proof -
  have "\<not> 0xFFFFFF < packColor (color g)"
    using packColor_le [of "color g"] by (simp add: not_less)
  then show ?thesis
    by (simp add: LedStripRGB_getColor_def LedStripRGB_setColor_def unpack_packColor)
qed

subsection \<open>Short press\<close>

lemma short_press_from_white:
  assumes "LedStrip_getState (led_strip_w s) = ON"
    and "LedStripRGB_getState (led_strip_rgb s) = OFF"
  shows "btnModeShortPressed s =
    s\<lparr>led_strip_w := LedStrip_setIntensity 255 (led_strip_w s),
      last_color := LedStripRGB_getColor (led_strip_rgb s),
      led_strip_rgb :=
        LedStripRGB_turnOn (LedStripRGB_setMode NORMAL
          (LedStripRGB_setColor COLOR_WHITE (led_strip_rgb s)))\<rparr>"
  using assms by (simp add: btnModeShortPressed_def)

lemma short_press_from_rgb_white:
  assumes "LedStrip_getState (led_strip_w s) = ON"
    and "LedStripRGB_getState (led_strip_rgb s) = ON"
    and "LedStripRGB_getMode (led_strip_rgb s) = NORMAL"
    and "LedStripRGB_getColor (led_strip_rgb s) = COLOR_WHITE"
  shows "btnModeShortPressed s =
    s\<lparr>led_strip_w := LedStrip_turnOff (led_strip_w s),
      led_strip_rgb :=
        LedStripRGB_turnOn (LedStripRGB_setColor (last_color s) (led_strip_rgb s))\<rparr>"
  using assms by (simp add: btnModeShortPressed_def)

text \<open>
  Claim C1.  Starting with the white channel on and the RGB group off, two short presses
  leave the RGB group on in Normal mode, showing the colour it held before the first press
  (which the first press saved in \<open>last_color\<close>), and the white channel off.
\<close>

theorem short_press_twice_restores_color:
  assumes white_on: "LedStrip_getState (led_strip_w s) = ON"
    and rgb_off: "LedStripRGB_getState (led_strip_rgb s) = OFF"
  shows "LedStripRGB_getState (led_strip_rgb (btnModeShortPressed (btnModeShortPressed s))) = ON \<and>
    LedStripRGB_getMode (led_strip_rgb (btnModeShortPressed (btnModeShortPressed s))) = NORMAL \<and>
    LedStripRGB_getColor (led_strip_rgb (btnModeShortPressed (btnModeShortPressed s))) =
      LedStripRGB_getColor (led_strip_rgb s) \<and>
    last_color (btnModeShortPressed s) = LedStripRGB_getColor (led_strip_rgb s) \<and>
    LedStrip_getState (led_strip_w (btnModeShortPressed (btnModeShortPressed s))) = OFF"
proof -
  define s1 where "s1 = btnModeShortPressed s"
  have s1: "s1 =
    s\<lparr>led_strip_w := LedStrip_setIntensity 255 (led_strip_w s),
      last_color := LedStripRGB_getColor (led_strip_rgb s),
      led_strip_rgb :=
        LedStripRGB_turnOn (LedStripRGB_setMode NORMAL
          (LedStripRGB_setColor COLOR_WHITE (led_strip_rgb s)))\<rparr>"
    unfolding s1_def by (rule short_press_from_white [OF white_on rgb_off])
  have w1: "LedStrip_getState (led_strip_w s1) = ON"
    using white_on
    by (simp add: s1 LedStrip_getState_def LedStrip_setIntensity_def split: if_splits)
  have g1: "LedStripRGB_getState (led_strip_rgb s1) = ON"
    by (simp add: s1 LedStripRGB_getState_def LedStripRGB_turnOn_def)
  have m1: "LedStripRGB_getMode (led_strip_rgb s1) = NORMAL"
    by (simp add: s1 LedStripRGB_getMode_def LedStripRGB_turnOn_def LedStripRGB_setMode_def)
  have "LedStripRGB_getColor (led_strip_rgb s1) =
      LedStripRGB_getColor (LedStripRGB_setColor COLOR_WHITE (led_strip_rgb s))"
    by (simp add: s1 LedStripRGB_getColor_def LedStripRGB_turnOn_def LedStripRGB_setMode_def)
  also have "\<dots> = COLOR_WHITE"
    by (rule getColor_setColor) (simp add: COLOR_WHITE_def)
  finally have c1: "LedStripRGB_getColor (led_strip_rgb s1) = COLOR_WHITE" .
  have l1: "last_color s1 = LedStripRGB_getColor (led_strip_rgb s)"
    by (simp add: s1)
  have s2: "btnModeShortPressed s1 =
    s1\<lparr>led_strip_w := LedStrip_turnOff (led_strip_w s1),
      led_strip_rgb :=
        LedStripRGB_turnOn (LedStripRGB_setColor (last_color s1) (led_strip_rgb s1))\<rparr>"
    by (rule short_press_from_rgb_white [OF w1 g1 m1 c1])
  have "LedStripRGB_getColor (led_strip_rgb (btnModeShortPressed s1)) =
      LedStripRGB_getColor (LedStripRGB_setColor (last_color s1) (led_strip_rgb s1))"
    by (simp add: s2 LedStripRGB_getColor_def LedStripRGB_turnOn_def)
  also have "\<dots> = last_color s1"
    by (rule getColor_setColor) (simp add: l1 LedStripRGB_getColor_def packColor_le)
  finally have c2: "LedStripRGB_getColor (led_strip_rgb (btnModeShortPressed s1)) =
      LedStripRGB_getColor (led_strip_rgb s)"
    by (simp add: l1)
  have g2: "LedStripRGB_getState (led_strip_rgb (btnModeShortPressed s1)) = ON"
    by (simp add: s2 LedStripRGB_getState_def LedStripRGB_turnOn_def)
  have m2: "LedStripRGB_getMode (led_strip_rgb (btnModeShortPressed s1)) = NORMAL"
    using m1
    by (simp add: s2 LedStripRGB_getMode_def LedStripRGB_turnOn_def LedStripRGB_setColor_def)
  have w2: "LedStrip_getState (led_strip_w (btnModeShortPressed s1)) = OFF"
    by (simp add: s2 LedStrip_getState_def LedStrip_turnOff_def)
  from g2 m2 c2 l1 w2 show ?thesis
    unfolding s1_def by simp
qed

text \<open>The theorem at a concrete state: white on at intensity 10, RGB off in Strobe mode
  holding the colour \<open>0x123456\<close>.\<close>

theorem short_press_twice_restores_color_witness:
  "LedStripRGB_getState (led_strip_rgb (btnModeShortPressed (btnModeShortPressed
      \<lparr>led_strip_w = \<lparr>isOn = True, intensity = 10\<rparr>,
       led_strip_rgb = \<lparr>rgbOn = False, mode = STROBE,
         color = \<lparr>red = 0x12, green = 0x34, blue = 0x56\<rparr>, speed = 0\<rparr>,
       last_color = 0, last_pot_color_value = 1\<rparr>))) = ON \<and>
   LedStripRGB_getMode (led_strip_rgb (btnModeShortPressed (btnModeShortPressed
      \<lparr>led_strip_w = \<lparr>isOn = True, intensity = 10\<rparr>,
       led_strip_rgb = \<lparr>rgbOn = False, mode = STROBE,
         color = \<lparr>red = 0x12, green = 0x34, blue = 0x56\<rparr>, speed = 0\<rparr>,
       last_color = 0, last_pot_color_value = 1\<rparr>))) = NORMAL \<and>
   LedStripRGB_getColor (led_strip_rgb (btnModeShortPressed (btnModeShortPressed
      \<lparr>led_strip_w = \<lparr>isOn = True, intensity = 10\<rparr>,
       led_strip_rgb = \<lparr>rgbOn = False, mode = STROBE,
         color = \<lparr>red = 0x12, green = 0x34, blue = 0x56\<rparr>, speed = 0\<rparr>,
       last_color = 0, last_pot_color_value = 1\<rparr>))) = 0x123456 \<and>
   LedStrip_getState (led_strip_w (btnModeShortPressed (btnModeShortPressed
      \<lparr>led_strip_w = \<lparr>isOn = True, intensity = 10\<rparr>,
       led_strip_rgb = \<lparr>rgbOn = False, mode = STROBE,
         color = \<lparr>red = 0x12, green = 0x34, blue = 0x56\<rparr>, speed = 0\<rparr>,
       last_color = 0, last_pot_color_value = 1\<rparr>))) = OFF"
proof -
  let ?s = "\<lparr>led_strip_w = \<lparr>isOn = True, intensity = 10\<rparr>,
       led_strip_rgb = \<lparr>rgbOn = False, mode = STROBE,
         color = \<lparr>red = 0x12, green = 0x34, blue = 0x56\<rparr>, speed = 0\<rparr>,
       last_color = 0, last_pot_color_value = 1\<rparr>"
  have w: "LedStrip_getState (led_strip_w ?s) = ON"
    by (simp add: LedStrip_getState_def)
  have g: "LedStripRGB_getState (led_strip_rgb ?s) = OFF"
    by (simp add: LedStripRGB_getState_def)
  have c: "LedStripRGB_getColor \<lparr>rgbOn = False, mode = STROBE,
         color = \<lparr>red = 0x12, green = 0x34, blue = 0x56\<rparr>, speed = 0\<rparr> = 0x123456"
    by (simp add: LedStripRGB_getColor_def packColor_def)
  show ?thesis
    using short_press_twice_restores_color [OF w g] by (simp add: c)
qed

subsection \<open>Long press\<close>

text \<open>
  Claim C2.  From every state of the white channel and the RGB group (any on/off
  states, any mode, any colour), the long-press handler leaves both the white channel and
  the RGB group off.
\<close>

theorem long_press_all_off:
  "LedStrip_getState (led_strip_w (btnModeLongPressed s)) = OFF \<and>
   LedStripRGB_getState (led_strip_rgb (btnModeLongPressed s)) = OFF"
  by (simp add: btnModeLongPressed_def LedStrip_getState_def LedStripRGB_getState_def
      LedStrip_turnOff_def LedStripRGB_turnOff_def)

subsection \<open>The colour wheel\<close>

lemma pack_bytes_bound:
  fixes x y z :: int
  assumes "0 \<le> x" "x \<le> 255" "0 \<le> y" "y \<le> 255" "0 \<le> z" "z \<le> 255"
  shows "0 \<le> x * 65536 + y * 256 + z" and "x * 65536 + y * 256 + z \<le> 16777215"
  using assms by linarith+

lemma masked_sum_bounds:
  fixes r g b :: int
  shows "0 \<le> push_bit 16 (r AND 0xFF) + push_bit 8 (g AND 0xFF) + (b AND 0xFF)"
    and "push_bit 16 (r AND 0xFF) + push_bit 8 (g AND 0xFF) + (b AND 0xFF) \<le> 0xFFFFFF"
proof -
  have r: "0 \<le> r AND 0xFF" "r AND 0xFF \<le> 255"
    by (simp_all add: AND_upper2)
  have g: "0 \<le> g AND 0xFF" "g AND 0xFF \<le> 255"
    by (simp_all add: AND_upper2)
  have b: "0 \<le> b AND 0xFF" "b AND 0xFF \<le> 255"
    by (simp_all add: AND_upper2)
  have eq: "push_bit 16 (r AND 0xFF) + push_bit 8 (g AND 0xFF) + (b AND 0xFF) =
      (r AND 0xFF) * 65536 + (g AND 0xFF) * 256 + (b AND 0xFF)"
    by (simp add: push_bit_eq_mult)
  show "0 \<le> push_bit 16 (r AND 0xFF) + push_bit 8 (g AND 0xFF) + (b AND 0xFF)"
    unfolding eq by (rule pack_bytes_bound [OF r g b])
  show "push_bit 16 (r AND 0xFF) + push_bit 8 (g AND 0xFF) + (b AND 0xFF) \<le> 0xFFFFFF"
    unfolding eq by (rule pack_bytes_bound [OF r g b])
qed

lemma word_of_int_le_24:
  fixes n :: int
  assumes "0 \<le> n" "n \<le> 0xFFFFFF"
  shows "(word_of_int n :: 32 word) \<le> 0xFFFFFF"
proof -
  have "uint (word_of_int n :: 32 word) = n"
    using assms by (simp add: uint_word_of_int take_bit_int_eq_self)
  then show ?thesis using assms by (simp add: word_le_def)
qed

lemma color_mixer_fits: "color_mixer v \<le> 0xFFFFFF"
  unfolding color_mixer_def Let_def
  by (auto simp only: split: if_splits prod.splits intro!: word_of_int_le_24 masked_sum_bounds)

text \<open>
  Claim C9.  \<open>color_mixer\<close> is defined on every 16-bit input, also above 1023, and its
  result fits in 24 bits: it is at most \<open>0xFFFFFF\<close> and it is exactly the packing of
  its red, green and blue byte fields, each of which lies in \<open>[0,255]\<close>, because every
  component is masked with \<open>0xFF\<close> before it is shifted and added.
\<close>

theorem color_mixer_total_24_bit:
  "color_mixer v \<le> 0xFFFFFF \<and>
   color_mixer v = packColor (unpackColor (color_mixer v)) \<and>
   unat (red (unpackColor (color_mixer v))) \<le> 255 \<and>
   unat (green (unpackColor (color_mixer v))) \<le> 255 \<and>
   unat (blue (unpackColor (color_mixer v))) \<le> 255"
proof -
  have byte: "unat b \<le> 255" for b :: "8 word"
    using unsigned_less [of b, where 'a = nat] by simp
  show ?thesis
    by (simp add: color_mixer_fits pack_unpackColor byte)
qed

text \<open>
  Claim C4.  The claim gives \<open>color_mixer 0\<close> as red 255, green 0, blue 1.  In the code
  \<^verbatim>\<open>red = 256 - input_value\<close> is 256 at input 0 and the mask \<^verbatim>\<open>red & 0xFF\<close> turns it
  into 0: the result is red 0, green 0, blue 1.  The second half of the claim holds:
  \<open>color_mixer 1023\<close> is red 255, green 1, blue 1.
\<close>

theorem color_mixer_endpoints:
  "unpackColor (color_mixer 0) = \<lparr>red = 0, green = 0, blue = 1\<rparr> \<and>
   unpackColor (color_mixer 1023) = \<lparr>red = 255, green = 1, blue = 1\<rparr>"
  by (simp add: color_mixer_def unpackColor_def)

text \<open>
  Claim C5.  The claim bounds the step of every component between adjacent inputs by a
  small constant.  In the code the red component jumps from 0 to 255 between the inputs
  1 and 2, the green one from 255 to 0 between 340 and 341, and the blue one from 255 to
  0 between 681 and 682: wherever the scaled input is 0, \<^verbatim>\<open>256 - input_value\<close> is 256
  and the mask makes it 0.
\<close>

theorem color_mixer_jumps:
  "unpackColor (color_mixer 1) = \<lparr>red = 0, green = 0, blue = 1\<rparr> \<and>
   unpackColor (color_mixer 2) = \<lparr>red = 255, green = 1, blue = 1\<rparr> \<and>
   unpackColor (color_mixer 340) = \<lparr>red = 1, green = 255, blue = 1\<rparr> \<and>
   unpackColor (color_mixer 341) = \<lparr>red = 1, green = 0, blue = 0\<rparr> \<and>
   unpackColor (color_mixer 681) = \<lparr>red = 1, green = 1, blue = 255\<rparr> \<and>
   unpackColor (color_mixer 682) = \<lparr>red = 0, green = 1, blue = 0\<rparr>"
  by (simp add: color_mixer_def unpackColor_def)

subsection \<open>The potentiometer\<close>

lemma unat_ucast_16_32: "unat (ucast q :: 32 word) = unat q" for q :: "16 word"
proof -
  have "unat q < 2 ^ 16"
    using unsigned_less [of q, where 'a = nat] by simp
  then have "unat q < 2 ^ 32"
    by simp
  then show ?thesis
    by (simp add: unsigned_ucast_eq take_bit_nat_eq_self)
qed

lemma unat_clamped_intensity:
  "unat (LedStrip_getIntensity (LedStrip_setIntensity (ucast q) w)) = min 255 (unat q)"
  for q :: "16 word"
proof (cases "255 < (ucast q :: 32 word)")
  case True
  then have "255 < unat q"
    by (simp add: word_less_nat_alt unat_ucast_16_32)
  with True show ?thesis
    by (simp add: LedStrip_getIntensity_def LedStrip_setIntensity_def)
next
  case False
  then have le: "unat q \<le> 255"
    by (simp add: word_less_nat_alt unat_ucast_16_32)
  have "unat (ucast (ucast q :: 32 word) :: 8 word) = take_bit LENGTH(8) (unat (ucast q :: 32 word))"
    by (rule unsigned_ucast_eq)
  also have "\<dots> = take_bit 8 (unat q)"
    by (simp only: unat_ucast_16_32) simp
  also have "\<dots> = unat q"
    using le by (simp add: take_bit_nat_eq_self)
  finally have "unat (ucast (ucast q :: 32 word) :: 8 word) = unat q" .
  with False le show ?thesis
    by (simp add: LedStrip_getIntensity_def LedStrip_setIntensity_def)
qed

lemma quantized_le_255:
  fixes n :: "16 word"
  assumes "n \<le> 1023"
  shows "unat (n div 4) \<le> 255" and "unat (n div 4) = unat n div 4"
proof -
  have "unat n \<le> 1023"
    using assms by (simp add: word_le_nat_alt)
  moreover show "unat (n div 4) = unat n div 4"
    by (simp add: unat_div)
  ultimately show "unat (n div 4) \<le> 255"
    by simp
qed

text \<open>
  Claim C7.  When the quantized reading (the raw reading divided by 4) differs from the
  stored one: with the RGB group on in Normal or Strobe mode, \<open>readPotValue\<close> sets the
  RGB colour to \<open>color_mixer\<close> of the raw reading; with the RGB group on in Flash or Fade
  mode it sets the speed to the raw reading and leaves the colour as it was; otherwise,
  with the white channel on, it sets the white intensity to the quantized reading.  The
  intensity is a byte: it is the quantized reading capped at 255, which is the quantized
  reading itself for every raw reading of the 10-bit converter (at most 1023).
\<close>

theorem pot_change_dispatch:
  assumes changed: "new_pot_value div 4 \<noteq> last_pot_color_value s"
  shows
    "(LedStripRGB_getState (led_strip_rgb s) = ON \<and>
      (LedStripRGB_getMode (led_strip_rgb s) = NORMAL \<or>
       LedStripRGB_getMode (led_strip_rgb s) = STROBE) \<longrightarrow>
        LedStripRGB_getColor (led_strip_rgb (readPotValue new_pot_value s)) =
          color_mixer new_pot_value) \<and>
     (LedStripRGB_getState (led_strip_rgb s) = ON \<and>
      (LedStripRGB_getMode (led_strip_rgb s) = FLASH \<or>
       LedStripRGB_getMode (led_strip_rgb s) = FADE) \<longrightarrow>
        speed (led_strip_rgb (readPotValue new_pot_value s)) = new_pot_value \<and>
        LedStripRGB_getColor (led_strip_rgb (readPotValue new_pot_value s)) =
          LedStripRGB_getColor (led_strip_rgb s)) \<and>
     (LedStripRGB_getState (led_strip_rgb s) = OFF \<and>
      LedStrip_getState (led_strip_w s) = ON \<longrightarrow>
        unat (LedStrip_getIntensity (led_strip_w (readPotValue new_pot_value s))) =
          min 255 (unat (new_pot_value div 4)) \<and>
        (new_pot_value \<le> 1023 \<longrightarrow>
          unat (LedStrip_getIntensity (led_strip_w (readPotValue new_pot_value s))) =
            unat new_pot_value div 4))"
proof (intro conjI impI)
  assume "LedStripRGB_getState (led_strip_rgb s) = ON \<and>
      (LedStripRGB_getMode (led_strip_rgb s) = NORMAL \<or>
       LedStripRGB_getMode (led_strip_rgb s) = STROBE)"
  then have "led_strip_rgb (readPotValue new_pot_value s) =
      LedStripRGB_setColor (color_mixer new_pot_value) (led_strip_rgb s)"
    using changed by (auto simp: readPotValue_def)
  then show "LedStripRGB_getColor (led_strip_rgb (readPotValue new_pot_value s)) =
      color_mixer new_pot_value"
    by (simp add: getColor_setColor color_mixer_fits)
next
  assume a: "LedStripRGB_getState (led_strip_rgb s) = ON \<and>
      (LedStripRGB_getMode (led_strip_rgb s) = FLASH \<or>
       LedStripRGB_getMode (led_strip_rgb s) = FADE)"
  then have eq: "led_strip_rgb (readPotValue new_pot_value s) =
      LedStripRGB_setSpeed new_pot_value (led_strip_rgb s)"
    using changed by (auto simp: readPotValue_def)
  show "speed (led_strip_rgb (readPotValue new_pot_value s)) = new_pot_value"
    by (simp add: eq LedStripRGB_setSpeed_def)
  show "LedStripRGB_getColor (led_strip_rgb (readPotValue new_pot_value s)) =
      LedStripRGB_getColor (led_strip_rgb s)"
    by (simp add: eq LedStripRGB_setSpeed_def LedStripRGB_getColor_def)
next
  assume a: "LedStripRGB_getState (led_strip_rgb s) = OFF \<and>
      LedStrip_getState (led_strip_w s) = ON"
  then have eq: "led_strip_w (readPotValue new_pot_value s) =
      LedStrip_setIntensity (ucast (new_pot_value div 4)) (led_strip_w s)"
    using changed by (simp add: readPotValue_def)
  show i: "unat (LedStrip_getIntensity (led_strip_w (readPotValue new_pot_value s))) =
      min 255 (unat (new_pot_value div 4))"
    by (simp only: eq unat_clamped_intensity)
  assume "new_pot_value \<le> 1023"
  then show "unat (LedStrip_getIntensity (led_strip_w (readPotValue new_pot_value s))) =
      unat new_pot_value div 4"
    using quantized_le_255 [of new_pot_value] by (simp add: i)
qed

text \<open>The theorem at three concrete states: RGB on in Normal mode with the reading 1023,
  RGB on in Flash mode with the reading 400, and white on with the reading 400.\<close>

theorem pot_change_dispatch_witness:
  "LedStripRGB_getColor (led_strip_rgb (readPotValue 1023
      \<lparr>led_strip_w = \<lparr>isOn = False, intensity = 7\<rparr>,
       led_strip_rgb = \<lparr>rgbOn = True, mode = NORMAL,
         color = \<lparr>red = 1, green = 2, blue = 3\<rparr>, speed = 0\<rparr>,
       last_color = 0, last_pot_color_value = 1\<rparr>)) = 0xFF0101 \<and>
   speed (led_strip_rgb (readPotValue 400
      \<lparr>led_strip_w = \<lparr>isOn = False, intensity = 7\<rparr>,
       led_strip_rgb = \<lparr>rgbOn = True, mode = FLASH,
         color = \<lparr>red = 1, green = 2, blue = 3\<rparr>, speed = 0\<rparr>,
       last_color = 0, last_pot_color_value = 1\<rparr>)) = 400 \<and>
   LedStripRGB_getColor (led_strip_rgb (readPotValue 400
      \<lparr>led_strip_w = \<lparr>isOn = False, intensity = 7\<rparr>,
       led_strip_rgb = \<lparr>rgbOn = True, mode = FLASH,
         color = \<lparr>red = 1, green = 2, blue = 3\<rparr>, speed = 0\<rparr>,
       last_color = 0, last_pot_color_value = 1\<rparr>)) = 0x010203 \<and>
   unat (LedStrip_getIntensity (led_strip_w (readPotValue 400
      \<lparr>led_strip_w = \<lparr>isOn = True, intensity = 7\<rparr>,
       led_strip_rgb = \<lparr>rgbOn = False, mode = FLASH,
         color = \<lparr>red = 1, green = 2, blue = 3\<rparr>, speed = 0\<rparr>,
       last_color = 0, last_pot_color_value = 1\<rparr>))) = 100"
proof -
  let ?normal = "\<lparr>led_strip_w = \<lparr>isOn = False, intensity = 7\<rparr>,
       led_strip_rgb = \<lparr>rgbOn = True, mode = NORMAL,
         color = \<lparr>red = 1, green = 2, blue = 3\<rparr>, speed = 0\<rparr>,
       last_color = 0, last_pot_color_value = 1\<rparr>"
  let ?flash = "\<lparr>led_strip_w = \<lparr>isOn = False, intensity = 7\<rparr>,
       led_strip_rgb = \<lparr>rgbOn = True, mode = FLASH,
         color = \<lparr>red = 1, green = 2, blue = 3\<rparr>, speed = 0\<rparr>,
       last_color = 0, last_pot_color_value = 1\<rparr>"
  let ?white = "\<lparr>led_strip_w = \<lparr>isOn = True, intensity = 7\<rparr>,
       led_strip_rgb = \<lparr>rgbOn = False, mode = FLASH,
         color = \<lparr>red = 1, green = 2, blue = 3\<rparr>, speed = 0\<rparr>,
       last_color = 0, last_pot_color_value = 1\<rparr>"
  have n: "(1023 :: 16 word) div 4 \<noteq> last_pot_color_value ?normal"
    by simp
  have f: "(400 :: 16 word) div 4 \<noteq> last_pot_color_value ?flash"
    by simp
  have w: "(400 :: 16 word) div 4 \<noteq> last_pot_color_value ?white"
    by simp
  have mix: "color_mixer 1023 = 0xFF0101"
    by (simp add: color_mixer_def)
  have "LedStripRGB_getColor (led_strip_rgb (readPotValue 1023 ?normal)) = 0xFF0101"
    using pot_change_dispatch [OF n]
    by (simp add: mix LedStripRGB_getState_def LedStripRGB_getMode_def)
  moreover have "speed (led_strip_rgb (readPotValue 400 ?flash)) = 400 \<and>
      LedStripRGB_getColor (led_strip_rgb (readPotValue 400 ?flash)) = 0x010203"
    using pot_change_dispatch [OF f]
    by (simp add: LedStripRGB_getState_def LedStripRGB_getMode_def
        LedStripRGB_getColor_def packColor_def)
  moreover have "unat (LedStrip_getIntensity (led_strip_w (readPotValue 400 ?white))) = 100"
    using pot_change_dispatch [OF w]
    by (simp add: LedStripRGB_getState_def LedStrip_getState_def)
  ultimately show ?thesis
    by simp
qed

text \<open>
  Claim C10.  With the white channel and the RGB group both off, any change of the
  quantized reading turns the white channel on.  The inner comparison with
  \<open>THRESHOLD_FOR_TURN_ON\<close> is false for every reading, because \<open>last_pot_color_value\<close>
  already holds the new quantized reading when it is evaluated; the outcome is the one of
  the two statements before the guarded block.
\<close>

theorem all_off_pot_change_turns_white_on:
  assumes white_off: "LedStrip_getState (led_strip_w s) = OFF"
    and rgb_off: "LedStripRGB_getState (led_strip_rgb s) = OFF"
    and changed: "new_pot_value div 4 \<noteq> last_pot_color_value s"
  shows "LedStrip_getState (led_strip_w (readPotValue new_pot_value s)) = ON \<and>
    last_pot_color_value (readPotValue new_pot_value s) = new_pot_value div 4 \<and>
    \<not> turn_on_jump new_pot_value (new_pot_value div 4) \<and>
    readPotValue new_pot_value s =
      s\<lparr>last_pot_color_value := new_pot_value div 4,
        led_strip_w := LedStrip_turnOn
          (LedStrip_setIntensity (ucast (new_pot_value div 4)) (led_strip_w s))\<rparr>"
proof -
  have guard: "\<not> turn_on_jump new_pot_value (new_pot_value div 4)"
    by (simp add: turn_on_jump_def THRESHOLD_FOR_TURN_ON_def)
  have eq: "readPotValue new_pot_value s =
      s\<lparr>last_pot_color_value := new_pot_value div 4,
        led_strip_w := LedStrip_turnOn
          (LedStrip_setIntensity (ucast (new_pot_value div 4)) (led_strip_w s))\<rparr>"
    using white_off rgb_off changed guard by (simp add: readPotValue_def)
  have "LedStrip_getState (led_strip_w (readPotValue new_pot_value s)) = ON"
    by (simp add: eq LedStrip_getState_def LedStrip_turnOn_def)
  moreover have "last_pot_color_value (readPotValue new_pot_value s) = new_pot_value div 4"
    by (simp add: eq)
  ultimately show ?thesis
    using guard eq by simp
qed

text \<open>The theorem at a concrete state: everything off, stored value 1, reading 8.\<close>

theorem all_off_pot_change_turns_white_on_witness:
  "LedStrip_getState (led_strip_w (readPotValue 8
      \<lparr>led_strip_w = \<lparr>isOn = False, intensity = 7\<rparr>,
       led_strip_rgb = \<lparr>rgbOn = False, mode = NORMAL,
         color = \<lparr>red = 1, green = 2, blue = 3\<rparr>, speed = 0\<rparr>,
       last_color = 0, last_pot_color_value = 1\<rparr>)) = ON \<and>
   last_pot_color_value (readPotValue 8
      \<lparr>led_strip_w = \<lparr>isOn = False, intensity = 7\<rparr>,
       led_strip_rgb = \<lparr>rgbOn = False, mode = NORMAL,
         color = \<lparr>red = 1, green = 2, blue = 3\<rparr>, speed = 0\<rparr>,
       last_color = 0, last_pot_color_value = 1\<rparr>) = 2 \<and>
   \<not> turn_on_jump 8 2"
proof -
  let ?s = "\<lparr>led_strip_w = \<lparr>isOn = False, intensity = 7\<rparr>,
       led_strip_rgb = \<lparr>rgbOn = False, mode = NORMAL,
         color = \<lparr>red = 1, green = 2, blue = 3\<rparr>, speed = 0\<rparr>,
       last_color = 0, last_pot_color_value = 1\<rparr>"
  have w: "LedStrip_getState (led_strip_w ?s) = OFF"
    by (simp add: LedStrip_getState_def)
  have g: "LedStripRGB_getState (led_strip_rgb ?s) = OFF"
    by (simp add: LedStripRGB_getState_def)
  have c: "(8 :: 16 word) div 4 \<noteq> last_pot_color_value ?s"
    by simp
  have q: "(8 :: 16 word) div 4 = 2"
    by simp
  from all_off_pot_change_turns_white_on [OF w g c]
  have "LedStrip_getState (led_strip_w (readPotValue 8 ?s)) = ON \<and>
      last_pot_color_value (readPotValue 8 ?s) = 8 div 4 \<and>
      \<not> turn_on_jump 8 (8 div 4)"
    by blast
  then show ?thesis
    by (simp add: q)
qed

subsection \<open>Remote commands\<close>

lemma mqtt_mode_payload_naming_no_mode:
  assumes "String_endsWith (String_cstr topic) ''/rgb/mode''"
    and "\<not> String_endsWith (String_cstr topic) ''/white''"
    and "\<not> String_endsWith (String_cstr topic) ''/white/intensity''"
    and "\<not> String_endsWith (String_cstr topic) ''/rgb''"
    and "\<not> String_startsWith (String_toLowerCase (String_trim (String_cstr payload))) ''normal''"
    and "\<not> String_startsWith (String_toLowerCase (String_trim (String_cstr payload))) ''strobe''"
    and "\<not> String_startsWith (String_toLowerCase (String_trim (String_cstr payload))) ''flash''"
    and "\<not> String_startsWith (String_toLowerCase (String_trim (String_cstr payload))) ''fade''"
  shows "mqttCallback topic payload s = s\<lparr>led_strip_rgb := LedStripRGB_turnOn (led_strip_rgb s)\<rparr>"
  using assms by (simp add: mqttCallback_def)

text \<open>
  Claim C6.  The claim has a command on \<^verbatim>\<open>rgb/mode\<close> whose payload names no mode leave
  the lighting state unchanged.  In \<open>mqttCallback\<close> the call \<^verbatim>\<open>turnOn()\<close> follows the
  chain on the payload unconditionally: with the RGB group off and the payload
  \<^verbatim>\<open>purple\<close>, the group is on afterwards (mode and white channel are as before).  The
  Blynk handler of the same command, \<open>BLYNK_WRITE_V2\<close>, leaves the group off on a value
  that selects no mode.
\<close>

theorem mqtt_invalid_mode_turns_rgb_on:
  "LedStripRGB_getState (led_strip_rgb
      \<lparr>led_strip_w = \<lparr>isOn = True, intensity = 7\<rparr>,
       led_strip_rgb = \<lparr>rgbOn = False, mode = STROBE,
         color = \<lparr>red = 1, green = 2, blue = 3\<rparr>, speed = 0\<rparr>,
       last_color = 0, last_pot_color_value = 1\<rparr>) = OFF \<and>
   mqttCallback ''strip/cmnd/rgb/mode'' ''purple''
      \<lparr>led_strip_w = \<lparr>isOn = True, intensity = 7\<rparr>,
       led_strip_rgb = \<lparr>rgbOn = False, mode = STROBE,
         color = \<lparr>red = 1, green = 2, blue = 3\<rparr>, speed = 0\<rparr>,
       last_color = 0, last_pot_color_value = 1\<rparr> =
      \<lparr>led_strip_w = \<lparr>isOn = True, intensity = 7\<rparr>,
       led_strip_rgb = \<lparr>rgbOn = True, mode = STROBE,
         color = \<lparr>red = 1, green = 2, blue = 3\<rparr>, speed = 0\<rparr>,
       last_color = 0, last_pot_color_value = 1\<rparr> \<and>
   LedStripRGB_getState (led_strip_rgb (mqttCallback ''strip/cmnd/rgb/mode'' ''purple''
      \<lparr>led_strip_w = \<lparr>isOn = True, intensity = 7\<rparr>,
       led_strip_rgb = \<lparr>rgbOn = False, mode = STROBE,
         color = \<lparr>red = 1, green = 2, blue = 3\<rparr>, speed = 0\<rparr>,
       last_color = 0, last_pot_color_value = 1\<rparr>)) = ON \<and>
   BLYNK_WRITE_V2 9
      \<lparr>led_strip_w = \<lparr>isOn = True, intensity = 7\<rparr>,
       led_strip_rgb = \<lparr>rgbOn = False, mode = STROBE,
         color = \<lparr>red = 1, green = 2, blue = 3\<rparr>, speed = 0\<rparr>,
       last_color = 0, last_pot_color_value = 1\<rparr> =
      \<lparr>led_strip_w = \<lparr>isOn = True, intensity = 7\<rparr>,
       led_strip_rgb = \<lparr>rgbOn = False, mode = STROBE,
         color = \<lparr>red = 1, green = 2, blue = 3\<rparr>, speed = 0\<rparr>,
       last_color = 0, last_pot_color_value = 1\<rparr>"
  by code_simp

subsection \<open>Telemetry\<close>

lemma telemetry_white_off:
  "LedStrip_getState (led_strip_w s) = OFF \<Longrightarrow> white_intensity (getState s c) = 0"
  by (simp add: getState_def)

lemma telemetry_rgb_off:
  "LedStripRGB_getState (led_strip_rgb s) = OFF \<Longrightarrow> rgb_mode (getState s c) = []"
  by (simp add: getState_def)

lemma length_String_HEX: "length (String_HEX v) = (if unat v < 16 then 1 else 2)"
  by (simp add: String_HEX_def)

lemma telemetry_color_length:
  "length (rgb_color (getState s c)) =
    1 + (if unat (red c) < 16 then 1 else 2) + (if unat (green c) < 16 then 1 else 2) +
      (if unat (blue c) < 16 then 1 else 2)"
  by (simp add: getState_def length_String_HEX)

text \<open>
  Claim C8.  The claim has the colour serialized as \<^verbatim>\<open>#\<close> and exactly two hexadecimal
  digits per component.  \<open>getState\<close> concatenates \<^verbatim>\<open>String(c.red, HEX)\<close>,
  \<^verbatim>\<open>String(c.green, HEX)\<close> and \<^verbatim>\<open>String(c.blue, HEX)\<close>, which print no leading zero: the
  colour red 10, green 0, blue 255 is reported as \<^verbatim>\<open>#a0ff\<close>, four digits instead of
  six, and two different colours share the text \<^verbatim>\<open>#1234\<close>.  The other two parts of the
  claim hold (lemmas \<open>telemetry_white_off\<close> and \<open>telemetry_rgb_off\<close>).
\<close>

theorem telemetry_color_not_padded:
  "rgb_color (getState
      \<lparr>led_strip_w = \<lparr>isOn = True, intensity = 7\<rparr>,
       led_strip_rgb = \<lparr>rgbOn = True, mode = NORMAL,
         color = \<lparr>red = 10, green = 0, blue = 255\<rparr>, speed = 0\<rparr>,
       last_color = 0, last_pot_color_value = 1\<rparr>
      \<lparr>red = 10, green = 0, blue = 255\<rparr>) = ''#a0ff'' \<and>
   rgb_color (getState
      \<lparr>led_strip_w = \<lparr>isOn = True, intensity = 7\<rparr>,
       led_strip_rgb = \<lparr>rgbOn = True, mode = NORMAL,
         color = \<lparr>red = 0x01, green = 0x23, blue = 0x04\<rparr>, speed = 0\<rparr>,
       last_color = 0, last_pot_color_value = 1\<rparr>
      \<lparr>red = 0x01, green = 0x23, blue = 0x04\<rparr>) = ''#1234'' \<and>
   rgb_color (getState
      \<lparr>led_strip_w = \<lparr>isOn = True, intensity = 7\<rparr>,
       led_strip_rgb = \<lparr>rgbOn = True, mode = NORMAL,
         color = \<lparr>red = 0x12, green = 0x03, blue = 0x04\<rparr>, speed = 0\<rparr>,
       last_color = 0, last_pot_color_value = 1\<rparr>
      \<lparr>red = 0x12, green = 0x03, blue = 0x04\<rparr>) = ''#1234''"
  by code_simp

subsection \<open>The control loop\<close>

text \<open>
  Claim C3.  The claim has every iteration sample the potentiometer, then advance the
  button debouncer, then the RGB animation.  The iteration of \<open>loop\<close> never calls
  \<open>readPotValue\<close>; it starts with the serial command handler, followed by the button
  handler and the RGB animation in that order.
\<close>

theorem loop_skips_potentiometer:
  "ReadPotValue \<notin> set (loop mqtt_connected) \<and>
   take 3 (loop mqtt_connected) = [SerialLoop, BtnModeLoop, LedStripRgbLoop]"
  by (simp add: loop_def)

end
